theory Spec2Isabelle
  imports Complex_Main "HOL-Library.Word"
begin

section \<open>JavaScript values used by the chat widget\<close>

text \<open>
  A JavaScript string is a sequence of UTF-16 code units. Literals of the source that
  are plain ASCII are written as HOL strings and converted with \<open>utf16\<close>.
\<close>

type_synonym jsstring = "16 word list"

definition utf16 :: "string \<Rightarrow> jsstring" where
  "utf16 s = map (\<lambda>c. word_of_nat (of_char c)) s"

text \<open>
  \<open>String.prototype.trim\<close> strips WhiteSpace and LineTerminator code points from both
  ends: TAB, LF, VT, FF, CR, SPACE, NBSP, U+1680, U+2000..U+200A, U+2028, U+2029,
  U+202F, U+205F, U+3000 and U+FEFF.
\<close>

definition js_whitespace :: "16 word \<Rightarrow> bool" where
  "js_whitespace c \<longleftrightarrow>
     c \<in> {0x09, 0x0A, 0x0B, 0x0C, 0x0D, 0x20, 0xA0, 0x1680,
          0x2028, 0x2029, 0x202F, 0x205F, 0x3000, 0xFEFF}
     \<or> (0x2000 \<le> c \<and> c \<le> 0x200A)"

definition js_trim :: "jsstring \<Rightarrow> jsstring" where
  "js_trim s = rev (dropWhile js_whitespace (rev (dropWhile js_whitespace s)))"

text \<open>\<open>Number.prototype.toString\<close> on a non-negative integer: its decimal digits.\<close>

fun toString :: "nat \<Rightarrow> jsstring" where
  "toString n =
     (if n < 10 then [word_of_nat (48 + n)]
      else toString (n div 10) @ [word_of_nat (48 + n mod 10)])"

declare toString.simps [simp del]

datatype js_error =
    NetworkError
  | AbortError
  | ApiDown
  | ApiError jsstring
  | SyntaxError

text \<open>
  What \<open>fetch\<close> does with one request: the promise rejects (no connection), or it
  resolves to a response with its \<open>ok\<close> flag, its \<open>statusText\<close> and the value
  \<open>response.json()\<close> parses (\<open>None\<close> when the body is not valid JSON and the
  parse throws; the code checks no shape, and a parsed body is taken at its declared
  type). \<open>latency\<close> is the time in milliseconds until the promise settles.
\<close>

record 'a http_response =
  ok :: bool
  statusText :: jsstring
  json :: "'a option"

datatype 'a fetch_behaviour =
    Rejects nat
  | Responds nat "'a http_response"

section \<open>The chat API helper: sendChatMessage\<close>

datatype role = RoleUser | RoleAssistant

record history_entry =
  role :: role
  content :: jsstring

record chat_request =
  user_message :: jsstring
  user_id :: jsstring
  conversation_history :: "history_entry list"

record chat_response =
  response :: jsstring
  confidence_score :: real
  sources :: "jsstring list"
  requires_attention :: bool
  conversation_id :: jsstring

text \<open>
  \<open>sendChatMessage\<close> posts the request to \<open>/chat\<close>; a response that is not \<open>ok\<close>
  throws \<open>API Error: statusText\<close>; every error is logged and thrown again.
\<close>

definition sendChatMessage ::
  "(chat_request \<Rightarrow> chat_response fetch_behaviour) \<Rightarrow> jsstring \<Rightarrow> jsstring
     \<Rightarrow> history_entry list \<Rightarrow> js_error + chat_response" where
  "sendChatMessage fetch userMessage userId conversationHistory =
     (case fetch \<lparr>user_message = userMessage, user_id = userId,
                   conversation_history = conversationHistory\<rparr> of
        Rejects _ \<Rightarrow> Inl NetworkError
      | Responds _ r \<Rightarrow>
          if \<not> ok r then Inl (ApiError (statusText r))
          else (case json r of None \<Rightarrow> Inl SyntaxError | Some v \<Rightarrow> Inr v))"

section \<open>The ChatBot component: handleSendMessage\<close>

datatype sender = User | Bot

record chat_message =
  msg_id :: jsstring
  msg_text :: jsstring
  msg_sender :: sender
  msg_timestamp :: nat
  msg_confidence :: "real option"
  msg_sources :: "jsstring list option"

record chatbot_state =
  messages :: "chat_message list"
  input :: jsstring
  loading :: bool
  isOnline :: bool
  showChat :: bool

text \<open>
  The clock reads of one call. Every message takes its id from \<open>Date.now()\<close> and its
  timestamp from \<open>new Date()\<close>, read when the message is built: the user message at
  the submit, the reply (the bot's answer, or the error message) once the request has
  settled, the warning after the reply.
\<close>

record clock =
  now_user :: nat
  date_user :: nat
  now_reply :: nat
  date_reply :: nat
  now_warning :: nat
  date_warning :: nat

text \<open>
  What one call of the handler did: the component state after it, the requests it sent
  to the backend, and whether it called \<open>e.preventDefault()\<close>.
\<close>

record handler_result =
  state :: chatbot_state
  requests :: "chat_request list"
  defaultPrevented :: bool

definition warningText :: jsstring where
  "warningText = [0x26A0, 0xFE0F] @
     utf16 '' This answer has low confidence. If it doesn't help, please contact our support team.''"

definition errorText :: jsstring where
  "errorText = utf16 ''Sorry, I encountered an error. Please try again later.''"

definition history_of :: "chat_message \<Rightarrow> history_entry" where
  "history_of m =
     \<lparr>role = (if msg_sender m = User then RoleUser else RoleAssistant),
      content = msg_text m\<rparr>"

definition handleSendMessage ::
  "jsstring \<Rightarrow> clock \<Rightarrow> (chat_request \<Rightarrow> chat_response fetch_behaviour)
     \<Rightarrow> chatbot_state \<Rightarrow> handler_result" where
  "handleSendMessage userId clk fetch s =
     (if js_trim (input s) = [] \<or> \<not> isOnline s
      then \<lparr>state = s, requests = [], defaultPrevented = True\<rparr>
      else
        let userMessage =
              \<lparr>msg_id = toString (now_user clk), msg_text = input s, msg_sender = User,
               msg_timestamp = date_user clk, msg_confidence = None, msg_sources = None\<rparr>;
            s1 = s\<lparr>messages := messages s @ [userMessage], input := [], loading := True\<rparr>;
            history = map history_of (messages s);
            req = \<lparr>user_message = input s, user_id = userId,
                   conversation_history = history\<rparr>;
            s2 =
              (case sendChatMessage fetch (input s) userId history of
                 Inr resp \<Rightarrow>
                   let botMessage =
                         \<lparr>msg_id = toString (now_reply clk + 1), msg_text = response resp,
                          msg_sender = Bot, msg_timestamp = date_reply clk,
                          msg_confidence = Some (confidence_score resp),
                          msg_sources = Some (sources resp)\<rparr>;
                       s' = s1\<lparr>messages := messages s1 @ [botMessage]\<rparr>
                   in if requires_attention resp
                      then
                        let warningMessage =
                              \<lparr>msg_id = toString (now_warning clk + 2),
                               msg_text = warningText, msg_sender = Bot,
                               msg_timestamp = date_warning clk, msg_confidence = None,
                               msg_sources = None\<rparr>
                        in s'\<lparr>messages := messages s' @ [warningMessage]\<rparr>
                      else s'
               | Inl err \<Rightarrow>
                   let errorMessage =
                         \<lparr>msg_id = toString (now_reply clk + 1), msg_text = errorText,
                          msg_sender = Bot, msg_timestamp = date_reply clk,
                          msg_confidence = None, msg_sources = None\<rparr>
                   in s1\<lparr>messages := messages s1 @ [errorMessage]\<rparr>)
        in \<lparr>state = s2\<lparr>loading := False\<rparr>, requests = [req], defaultPrevented = True\<rparr>)"

section \<open>The health check with retries: checkHealth\<close>

record health_check =
  status :: jsstring
  service :: jsstring
  version :: jsstring
  environment :: jsstring
  database :: jsstring

datatype 'a js_result = Returned 'a | ReturnedUndefined | Thrown js_error

text \<open>
  What a call of \<open>checkHealth\<close> does besides returning: the requests to \<open>/health\<close>
  (numbered by attempt), the aborts its timers cause, the pauses, and the log lines.
\<close>

datatype health_event =
    FetchHealth nat
  | AbortFetch nat
  | Warn nat js_error
  | Wait nat
  | LogAllRetriesFailed
  | LogHealthCheckFailed js_error

definition maxRetries :: nat where
  "maxRetries = 3"

definition retryDelayMs :: nat where
  "retryDelayMs = 15000"

text \<open>The delay of the timer that calls \<open>controller.abort()\<close>, in milliseconds.\<close>

definition attemptTimeoutMs :: nat where
  "attemptTimeoutMs = 20000"

fun latency :: "'a fetch_behaviour \<Rightarrow> nat" where
  "latency (Rejects t) = t"
| "latency (Responds t r) = t"

text \<open>
  One pass through the \<open>try\<close> block. A fetch that has not settled when the timer fires
  is aborted and rejects with an \<open>AbortError\<close>. A fetch that settles earlier rejects
  with its own error, or resolves: then the timer is cleared, a response that is not
  \<open>ok\<close> throws \<open>API is down\<close>, and otherwise \<open>response.json()\<close> is returned.
\<close>

definition health_attempt :: "health_check fetch_behaviour \<Rightarrow> js_error + health_check" where
  "health_attempt b =
     (if attemptTimeoutMs \<le> latency b then Inl AbortError
      else (case b of
              Rejects _ \<Rightarrow> Inl NetworkError
            | Responds _ r \<Rightarrow>
                if \<not> ok r then Inl ApiDown
                else (case json r of None \<Rightarrow> Inl SyntaxError | Some h \<Rightarrow> Inr h)))"

definition attempt_events :: "nat \<Rightarrow> health_check fetch_behaviour \<Rightarrow> health_event list" where
  "attempt_events attempt b =
     FetchHealth attempt # (if attemptTimeoutMs \<le> latency b then [AbortFetch attempt] else [])"

text \<open>
  The \<open>for\<close> loop from a given value of \<open>attempt\<close>; \<open>fetch n\<close> is how the network
  treats the \<open>n\<close>-th request. A loop that ran to its end would return \<open>undefined\<close>.
\<close>

function checkHealth_from ::
  "(nat \<Rightarrow> health_check fetch_behaviour) \<Rightarrow> nat
     \<Rightarrow> health_check js_result \<times> health_event list" where
  "checkHealth_from fetch attempt =
     (if attempt \<le> maxRetries then
        (case health_attempt (fetch attempt) of
           Inr h \<Rightarrow> (Returned h, attempt_events attempt (fetch attempt))
         | Inl e \<Rightarrow>
             if attempt < maxRetries then
               (case checkHealth_from fetch (attempt + 1) of
                  (r, later) \<Rightarrow>
                    (r, attempt_events attempt (fetch attempt)
                          @ [Warn attempt e, Wait retryDelayMs] @ later))
             else
               (Thrown e, attempt_events attempt (fetch attempt)
                            @ [Warn attempt e, LogAllRetriesFailed]))
      else (ReturnedUndefined, []))"
  by pat_completeness auto
termination
  by (relation "measure (\<lambda>(fetch, attempt). Suc maxRetries - attempt)") auto

declare checkHealth_from.simps [simp del]

definition checkHealth ::
  "(nat \<Rightarrow> health_check fetch_behaviour) \<Rightarrow> health_check js_result \<times> health_event list" where
  "checkHealth fetch = checkHealth_from fetch 1"

text \<open>
  The TypeScript helper of \<open>frontend/chatbot-api.ts\<close>: one request, no timer, and every
  error is logged and thrown again.
\<close>

definition health_attempt_ts :: "health_check fetch_behaviour \<Rightarrow> js_error + health_check" where
  "health_attempt_ts b =
     (case b of
        Rejects _ \<Rightarrow> Inl NetworkError
      | Responds _ r \<Rightarrow>
          if \<not> ok r then Inl ApiDown
          else (case json r of None \<Rightarrow> Inl SyntaxError | Some h \<Rightarrow> Inr h))"

definition checkHealth_ts ::
  "(nat \<Rightarrow> health_check fetch_behaviour) \<Rightarrow> health_check js_result \<times> health_event list" where
  "checkHealth_ts fetch =
     (case health_attempt_ts (fetch 1) of
        Inr h \<Rightarrow> (Returned h, [FetchHealth 1])
      | Inl e \<Rightarrow> (Thrown e, [FetchHealth 1, LogHealthCheckFailed e]))"

fun is_fetch :: "health_event \<Rightarrow> bool" where
  "is_fetch (FetchHealth _) = True"
| "is_fetch _ = False"

section \<open>The documents table of schema.sql\<close>

text \<open>
  One row of \<open>documents\<close>. A column without \<open>NOT NULL\<close> may hold \<open>NULL\<close>
  (\<open>None\<close>). \<open>embedding\<close> is declared \<open>FLOAT8[]\<close>, a plain Postgres array: the
  declaration gives it no length.
\<close>

record document_row =
  doc_id :: int
  doc_content :: string
  doc_metadata :: "string option"
  doc_embedding :: "real list option"
  doc_source :: "string option"
  doc_type :: "string option"
  doc_created_at :: "nat option"
  doc_updated_at :: "nat option"

text \<open>The table: its rows in insertion order and the last value of the \<open>BIGSERIAL\<close> sequence.\<close>

record documents_table =
  rows :: "document_row list"
  id_seq :: int

definition empty_documents :: documents_table where
  "empty_documents = \<lparr>rows = [], id_seq = 0\<rparr>"

datatype sql_error =
    NotNullViolation
  | StringDataRightTruncation
  | UniqueViolation
  | SequenceLimitExceeded

text \<open>
  The values of an \<open>INSERT INTO documents (content, doc_metadata, embedding, source,
  doc_type)\<close>; \<open>id\<close>, \<open>created_at\<close> and \<open>updated_at\<close> take their defaults.
\<close>

record document_values =
  new_content :: "string option"
  new_metadata :: "string option"
  new_embedding :: "real list option"
  new_source :: "string option"
  new_doc_type :: "string option"

text \<open>
  Storing into \<open>VARCHAR(n)\<close>: a longer string is an error, unless all the characters
  beyond \<open>n\<close> are spaces; then it is cut to \<open>n\<close> characters.
\<close>

definition varchar :: "nat \<Rightarrow> string option \<Rightarrow> sql_error + string option" where
  "varchar n v =
     (case v of
        None \<Rightarrow> Inr None
      | Some s \<Rightarrow>
          if length s \<le> n then Inr (Some s)
          else if list_all (\<lambda>c. c = CHR '' '') (drop n s) then Inr (Some (take n s))
          else Inl StringDataRightTruncation)"

text \<open>
  The insert checks what the table declares: \<open>content\<close> is \<open>NOT NULL\<close>, \<open>source\<close> is
  \<open>VARCHAR(255)\<close>, \<open>doc_type\<close> is \<open>VARCHAR(50)\<close>, \<open>id\<close> is the next value of a
  64-bit sequence and the primary key. Nothing is declared about the length of the
  embedding, so nothing is checked. An embedding is taken as a one-dimensional array
  without \<open>NULL\<close> elements.
\<close>

definition sql_insert ::
  "nat \<Rightarrow> document_values \<Rightarrow> documents_table \<Rightarrow> sql_error + documents_table" where
  "sql_insert now v t =
     (if 2 ^ 63 - 1 \<le> id_seq t then Inl SequenceLimitExceeded
      else
        (case new_content v of
           None \<Rightarrow> Inl NotNullViolation
         | Some c \<Rightarrow>
             (case varchar 255 (new_source v) of
                Inl err \<Rightarrow> Inl err
              | Inr src \<Rightarrow>
                  (case varchar 50 (new_doc_type v) of
                     Inl err \<Rightarrow> Inl err
                   | Inr ty \<Rightarrow>
                       if id_seq t + 1 \<in> set (map doc_id (rows t)) then Inl UniqueViolation
                       else Inr \<lparr>rows = rows t @
                                    [\<lparr>doc_id = id_seq t + 1, doc_content = c,
                                      doc_metadata = new_metadata v,
                                      doc_embedding = new_embedding v,
                                      doc_source = src, doc_type = ty,
                                      doc_created_at = Some now, doc_updated_at = Some now\<rparr>],
                                  id_seq = id_seq t + 1\<rparr>))))"

text \<open>\<open>UPDATE documents SET embedding = e WHERE id = i\<close>.\<close>

definition sql_update_embedding ::
  "int \<Rightarrow> real list option \<Rightarrow> documents_table \<Rightarrow> documents_table" where
  "sql_update_embedding i e t =
     t\<lparr>rows := map (\<lambda>r. if doc_id r = i then r\<lparr>doc_embedding := e\<rparr> else r) (rows t)\<rparr>"

text \<open>
  Modelled from the spec: re-embedding on a model upgrade (section 3), whose code is not
  in the repository's files. Every row gets the embedding the new model computes from
  its content.
\<close>

definition reembed :: "(string \<Rightarrow> real list) \<Rightarrow> documents_table \<Rightarrow> documents_table" where
  "reembed embedder t = t\<lparr>rows := map (\<lambda>r. r\<lparr>doc_embedding := Some (embedder (doc_content r))\<rparr>) (rows t)\<rparr>"

text \<open>
  Modelled from the spec: \<open>promote\<close> (section 4.8), whose code is not in the
  repository's files. It builds a chunk from the user's query and the admin's response,
  embeds it and inserts it; the source and the type it files the chunk under are left
  to the caller.
\<close>

definition promote ::
  "(string \<Rightarrow> real list) \<Rightarrow> nat \<Rightarrow> string option \<Rightarrow> string option \<Rightarrow> string \<Rightarrow> string
     \<Rightarrow> documents_table \<Rightarrow> sql_error + documents_table" where
  "promote embedder now src ty userQuery adminResponse t =
     sql_insert now
       \<lparr>new_content = Some (userQuery @ adminResponse), new_metadata = None,
        new_embedding = Some (embedder (userQuery @ adminResponse)),
        new_source = src, new_doc_type = ty\<rparr> t"

text \<open>Every stored row has an embedding, of length \<open>D\<close>.\<close>

definition has_dimension :: "nat \<Rightarrow> documents_table \<Rightarrow> bool" where
  "has_dimension D t = list_all (\<lambda>r. map_option length (doc_embedding r) = Some D) (rows t)"

text \<open>The length of each stored embedding, row by row (\<open>None\<close> for \<open>NULL\<close>).\<close>

definition embedding_lengths :: "documents_table \<Rightarrow> nat option list" where
  "embedding_lengths t = map (\<lambda>r. map_option length (doc_embedding r)) (rows t)"

section \<open>The retrieval core, from the specification\<close>

datatype docType = Faq | News | Guide | Investment

text \<open>
  Modelled from the spec: the Chunk of section 3. The backend that stores and ranks
  chunks is not in the repository's files.
\<close>

record chunk =
  chunk_id :: nat
  chunk_content :: string
  chunk_source :: string
  chunk_docType :: docType
  embedding :: "real list"
  metadata :: "(string \<times> string) list"
  createdAt :: nat

text \<open>
  Modelled from the spec: the similarity metric of section 4.3, on vectors of reals.
  \<open>cos(a,b) = (a\<cdot>b) / (\<parallel>a\<parallel>\<cdot>\<parallel>b\<parallel>)\<close>, taken as 0 when either norm is zero, and
  \<open>score = (cos + 1) / 2\<close>.
\<close>

definition dot :: "real list \<Rightarrow> real list \<Rightarrow> real" where
  "dot a b = sum_list (map2 (*) a b)"

definition vec_norm :: "real list \<Rightarrow> real" where
  "vec_norm a = sqrt (dot a a)"

definition cos_sim :: "real list \<Rightarrow> real list \<Rightarrow> real" where
  "cos_sim a b =
     (if vec_norm a = 0 \<or> vec_norm b = 0 then 0 else dot a b / (vec_norm a * vec_norm b))"

definition score :: "real list \<Rightarrow> real list \<Rightarrow> real" where
  "score a b = (cos_sim a b + 1) / 2"

text \<open>
  Modelled from the spec: the Vector Store of section 4.3. The chunks are kept in
  insertion order; \<open>insert\<close> assigns the identity from a counter.
\<close>

record vector_store =
  chunks :: "chunk list"
  next_id :: nat

definition empty_store :: vector_store where
  "empty_store = \<lparr>chunks = [], next_id = 0\<rparr>"

definition same_pair :: "chunk \<Rightarrow> chunk \<Rightarrow> bool" where
  "same_pair c d \<longleftrightarrow> chunk_source d = chunk_source c \<and> chunk_content d = chunk_content c"

text \<open>
  Modelled from the spec: \<open>insert\<close> of section 4.3, with the dedup policy as a flag.
  When the flag is on and a chunk with the same \<open>(source, content)\<close> is stored, the
  insert is skipped and the stored id returned; otherwise the chunk is stored under the
  next identity.
\<close>

definition insert_chunk :: "bool \<Rightarrow> chunk \<Rightarrow> vector_store \<Rightarrow> nat \<times> vector_store" where
  "insert_chunk dedup c s =
     (case (if dedup then find (same_pair c) (chunks s) else None) of
        Some d \<Rightarrow> (chunk_id d, s)
      | None \<Rightarrow>
          (next_id s,
           \<lparr>chunks = chunks s @ [c\<lparr>chunk_id := next_id s\<rparr>], next_id = next_id s + 1\<rparr>))"

text \<open>Modelled from the spec: \<open>count\<close> and \<open>delete\<close> of section 4.3.\<close>

definition count :: "vector_store \<Rightarrow> nat" where
  "count s = length (chunks s)"

definition delete :: "nat \<Rightarrow> vector_store \<Rightarrow> vector_store" where
  "delete i s = s\<lparr>chunks := filter (\<lambda>c. chunk_id c \<noteq> i) (chunks s)\<rparr>"

text \<open>
  Modelled from the spec: the optional filter of \<open>query\<close> (section 4.3), which
  restricts the chunks by \<open>docType\<close>, by \<open>source\<close>, or by both.
\<close>

record query_filter =
  filter_docType :: "docType option"
  filter_source :: "string option"

definition matches :: "query_filter option \<Rightarrow> chunk \<Rightarrow> bool" where
  "matches flt c =
     (case flt of
        None \<Rightarrow> True
      | Some f \<Rightarrow>
          (case filter_docType f of None \<Rightarrow> True | Some t \<Rightarrow> chunk_docType c = t)
          \<and> (case filter_source f of None \<Rightarrow> True | Some src \<Rightarrow> chunk_source c = src))"

text \<open>Modelled from the spec: an entry of a RetrievalResult (section 3).\<close>

record retrieval_entry =
  entry_chunk :: chunk
  entry_score :: real

definition scored :: "real list \<Rightarrow> chunk \<Rightarrow> retrieval_entry" where
  "scored v c = \<lparr>entry_chunk = c, entry_score = score v (embedding c)\<rparr>"

text \<open>
  Modelled from the spec: \<open>query\<close> of section 4.3. The chunks that pass the filter,
  each with its score, ranked by a stable sort on descending score (so the
  earlier-inserted chunk wins a tie), cut to \<open>topK\<close>.
\<close>

definition query ::
  "real list \<Rightarrow> nat \<Rightarrow> query_filter option \<Rightarrow> vector_store \<Rightarrow> retrieval_entry list" where
  "query v topK flt s =
     take topK (sort_key (\<lambda>e. - entry_score e) (map (scored v) (filter (matches flt) (chunks s))))"

text \<open>
  The identities of a store built by \<open>insert\<close> and \<open>delete\<close> grow in insertion order
  and stay below the counter.
\<close>

definition wf_store :: "vector_store \<Rightarrow> bool" where
  "wf_store s \<longleftrightarrow>
     sorted_wrt (<) (map chunk_id (chunks s)) \<and> list_all (\<lambda>c. chunk_id c < next_id s) (chunks s)"

text \<open>The ranking order: a higher score first, and among equal scores the smaller identity.\<close>

definition ranks_before :: "retrieval_entry \<Rightarrow> retrieval_entry \<Rightarrow> bool" where
  "ranks_before a b \<longleftrightarrow>
     entry_score b < entry_score a
     \<or> (entry_score a = entry_score b \<and> chunk_id (entry_chunk a) < chunk_id (entry_chunk b))"

section \<open>The confidence gate and the feedback loop, from the specification\<close>

text \<open>
  Modelled from the spec: the thresholds of section 4.5, which are configuration, with
  their defaults.
\<close>

record gate_config =
  fallbackThreshold :: real
  answerThreshold :: real

definition default_config :: gate_config where
  "default_config = \<lparr>fallbackThreshold = 3 / 10, answerThreshold = 6 / 10\<rparr>"

datatype gate_outcome = Answer | AnswerWithWarning | Refuse

text \<open>
  Modelled from the spec: the top score of a RetrievalResult, which section 3 orders by
  descending score; an empty result has none.
\<close>

definition top_score :: "retrieval_entry list \<Rightarrow> real option" where
  "top_score r = (case r of [] \<Rightarrow> None | e # _ \<Rightarrow> Some (entry_score e))"

text \<open>
  Modelled from the spec: the Confidence Gate of section 4.5, whose code is not in the
  repository's files. Answer when the top score reaches \<open>answerThreshold\<close>, answer with a
  warning when it reaches \<open>fallbackThreshold\<close>, refuse below that or on an empty result.
\<close>

definition confidence_gate :: "gate_config \<Rightarrow> retrieval_entry list \<Rightarrow> gate_outcome" where
  "confidence_gate cfg r =
     (case top_score r of
        None \<Rightarrow> Refuse
      | Some s \<Rightarrow>
          if answerThreshold cfg \<le> s then Answer
          else if fallbackThreshold cfg \<le> s then AnswerWithWarning
          else Refuse)"

text \<open>Modelled from the spec: the UnansweredQuery of section 3.\<close>

datatype query_status = Open | Resolved

record unanswered_query =
  uq_id :: nat
  userQuery :: string
  confidenceScore :: real
  adminResponse :: "string option"
  uq_status :: query_status

text \<open>
  Modelled from the spec: \<open>recordUnanswered\<close> of section 4.8. Records are never
  deleted, so their number serves as the next identity.
\<close>

definition recordUnanswered ::
  "string \<Rightarrow> real \<Rightarrow> unanswered_query list \<Rightarrow> unanswered_query list" where
  "recordUnanswered q confidence uqs =
     uqs @ [\<lparr>uq_id = length uqs, userQuery = q, confidenceScore = confidence,
              adminResponse = None, uq_status = Open\<rparr>]"

text \<open>
  Modelled from the spec: the observed confidence that is recorded. The spec names no
  value for an empty result, which has no score; 0 stands for it here.
\<close>

definition observed_confidence :: "retrieval_entry list \<Rightarrow> real" where
  "observed_confidence r = (case top_score r of None \<Rightarrow> 0 | Some s \<Rightarrow> s)"

text \<open>Modelled from the spec: the fixed refusal message of section 4.5.\<close>

definition refusal_message :: string where
  "refusal_message = ''insufficient information in documents''"

text \<open>
  Modelled from the spec: what the gate decides of the chat response of section 6, its
  text and its \<open>requires_attention\<close> flag.
\<close>

record reply =
  reply_text :: string
  requiresAttention :: bool

text \<open>
  Modelled from the spec: the query path after retrieval (sections 2 and 4.5).
  \<open>generate\<close> stands for the Prompt Builder and the Generator; a refusal does not call it.
  The result is the reply and the unanswered queries on record after the call.
\<close>

definition answer_query ::
  "gate_config \<Rightarrow> (string \<Rightarrow> chunk list \<Rightarrow> string) \<Rightarrow> string \<Rightarrow> retrieval_entry list
     \<Rightarrow> unanswered_query list \<Rightarrow> reply \<times> unanswered_query list" where
  "answer_query cfg generate question r uqs =
     (case confidence_gate cfg r of
        Answer \<Rightarrow>
          (\<lparr>reply_text = generate question (map entry_chunk r), requiresAttention = False\<rparr>,
           uqs)
      | AnswerWithWarning \<Rightarrow>
          (\<lparr>reply_text = generate question (map entry_chunk r), requiresAttention = True\<rparr>,
           recordUnanswered question (observed_confidence r) uqs)
      | Refuse \<Rightarrow>
          (\<lparr>reply_text = refusal_message, requiresAttention = True\<rparr>,
           recordUnanswered question (observed_confidence r) uqs))"

section \<open>Example inputs\<close>

definition idle_state :: "jsstring \<Rightarrow> bool \<Rightarrow> chatbot_state" where
  "idle_state txt online =
     \<lparr>messages = [], input = txt, loading = False, isOnline = online, showChat = True\<rparr>"

definition noon :: clock where
  "noon = \<lparr>now_user = 1700000000000, date_user = 1700000000000,
            now_reply = 1700000000850, date_reply = 1700000000850,
            now_warning = 1700000000851, date_warning = 1700000000851\<rparr>"

definition unsure_reply :: chat_response where
  "unsure_reply =
     \<lparr>response = utf16 ''Possibly two million.'', confidence_score = 45 / 100,
      sources = [utf16 ''policy.pdf''], requires_attention = True,
      conversation_id = utf16 ''c-1''\<rparr>"

definition backend_up :: "chat_response \<Rightarrow> chat_request \<Rightarrow> chat_response fetch_behaviour" where
  "backend_up r req = Responds 850 \<lparr>ok = True, statusText = utf16 ''OK'', json = Some r\<rparr>"

definition healthy :: health_check where
  "healthy =
     \<lparr>status = utf16 ''healthy'', service = utf16 ''chatbot'', version = utf16 ''1.0'',
      environment = utf16 ''production'', database = utf16 ''connected''\<rparr>"

text \<open>
  A server that is waking up: the first request finds no connection, the second gets no
  answer within the timeout, the third is answered.
\<close>

definition waking_server :: "nat \<Rightarrow> health_check fetch_behaviour" where
  "waking_server n =
     (if n = 1 then Rejects 100
      else if n = 2
        then Responds 25000 \<lparr>ok = True, statusText = utf16 ''OK'', json = Some healthy\<rparr>
        else Responds 300 \<lparr>ok = True, statusText = utf16 ''OK'', json = Some healthy\<rparr>)"

definition policy_chunk :: chunk where
  "policy_chunk =
     \<lparr>chunk_id = 0, chunk_content = ''Our minimum investment is $2 million.'',
      chunk_source = ''policy.pdf'', chunk_docType = Investment, embedding = [1, 0],
      metadata = [], createdAt = 0\<rparr>"

definition fees_chunk :: chunk where
  "fees_chunk =
     \<lparr>chunk_id = 0, chunk_content = ''Fees are charged yearly.'',
      chunk_source = ''fees.txt'', chunk_docType = Faq, embedding = [0, 1],
      metadata = [], createdAt = 0\<rparr>"

definition terms_chunk :: chunk where
  "terms_chunk =
     \<lparr>chunk_id = 0, chunk_content = ''The minimum ticket is two million dollars.'',
      chunk_source = ''terms.txt'', chunk_docType = Guide, embedding = [1, 0],
      metadata = [], createdAt = 0\<rparr>"

text \<open>A store after three inserts: the first and the third chunk have the same embedding.\<close>

definition library :: vector_store where
  "library =
     snd (insert_chunk True terms_chunk
       (snd (insert_chunk True fees_chunk
         (snd (insert_chunk True policy_chunk empty_store)))))"

definition echo :: "string \<Rightarrow> chunk list \<Rightarrow> string" where
  "echo question cs = concat (map chunk_content cs)"

definition document_of :: "string \<Rightarrow> real list option \<Rightarrow> document_values" where
  "document_of c e =
     \<lparr>new_content = Some c, new_metadata = None, new_embedding = e,
      new_source = Some ''policy.pdf'', new_doc_type = Some ''faq''\<rparr>"

definition one_document :: documents_table where
  "one_document =
     \<lparr>rows = [\<lparr>doc_id = 1, doc_content = ''first'', doc_metadata = None,
                doc_embedding = Some [1, 2, 3], doc_source = Some ''policy.pdf'',
                doc_type = Some ''faq'', doc_created_at = Some 10, doc_updated_at = Some 10\<rparr>],
      id_seq = 1\<rparr>"

definition length3 :: "string \<Rightarrow> real list" where
  "length3 s = [real (length s), 0, 1]"

section \<open>Facts about trimming\<close>

lemma all_dropWhile_iff:
  "(\<forall>x \<in> set (dropWhile P xs). P x) \<longleftrightarrow> (\<forall>x \<in> set xs. P x)"
proof
  assume rest: "\<forall>x \<in> set (dropWhile P xs). P x"
  have "\<forall>x \<in> set (takeWhile P xs). P x"
    by (auto dest: set_takeWhileD)
  moreover have "set xs = set (takeWhile P xs) \<union> set (dropWhile P xs)"
    by (subst set_append [symmetric]) simp
  ultimately show "\<forall>x \<in> set xs. P x"
    using rest by blast
next
  assume "\<forall>x \<in> set xs. P x"
  then show "\<forall>x \<in> set (dropWhile P xs). P x"
    by (auto dest: set_dropWhileD)
qed

lemma js_trim_empty_iff: "js_trim s = [] \<longleftrightarrow> (\<forall>c \<in> set s. js_whitespace c)"
proof -
  have "js_trim s = [] \<longleftrightarrow>
        (\<forall>c \<in> set (rev (dropWhile js_whitespace s)). js_whitespace c)"
    unfolding js_trim_def rev_is_Nil_conv dropWhile_eq_Nil_conv ..
  also have "\<dots> \<longleftrightarrow> (\<forall>c \<in> set (dropWhile js_whitespace s). js_whitespace c)"
    by simp
  also have "\<dots> \<longleftrightarrow> (\<forall>c \<in> set s. js_whitespace c)"
    by (rule all_dropWhile_iff)
  finally show ?thesis .
qed

section \<open>The submit handler of the chat widget\<close>

text \<open>
  Claim C9. A submit whose input is empty or made of whitespace only, or that comes
  while the widget is marked offline, leaves the component state as it was (messages,
  input field and loading flag included) and sends no request to the backend.
\<close>

theorem handleSendMessage_blank_or_offline:
  assumes "(\<forall>c \<in> set (input s). js_whitespace c) \<or> \<not> isOnline s"
  shows "state (handleSendMessage userId clk fetch s) = s
         \<and> requests (handleSendMessage userId clk fetch s) = []"
proof -
  from assms have "js_trim (input s) = [] \<or> \<not> isOnline s"
    by (simp add: js_trim_empty_iff)
  then show ?thesis
    by (simp add: handleSendMessage_def)
qed

theorem handleSendMessage_blank_or_offline_witness:
  "state (handleSendMessage (utf16 ''u1'') noon (backend_up unsure_reply)
            (idle_state [0x20, 0x0A, 0x3000] True))
     = idle_state [0x20, 0x0A, 0x3000] True
   \<and> requests (handleSendMessage (utf16 ''u1'') noon (backend_up unsure_reply)
            (idle_state [0x68, 0x69] False)) = []"
proof -
  have blank: "(\<forall>c \<in> set (input (idle_state [0x20, 0x0A, 0x3000] True)). js_whitespace c)
           \<or> \<not> isOnline (idle_state [0x20, 0x0A, 0x3000] True)"
    by (simp add: idle_state_def js_whitespace_def)
  have offline: "(\<forall>c \<in> set (input (idle_state [0x68, 0x69] False)). js_whitespace c)
           \<or> \<not> isOnline (idle_state [0x68, 0x69] False)"
    by (simp add: idle_state_def)
  show ?thesis
    using handleSendMessage_blank_or_offline [OF blank]
      handleSendMessage_blank_or_offline [OF offline]
    by simp
qed

text \<open>
  Claim C8. When the input is not blank, the widget is online and the backend answers,
  the message list grows by the user message and the bot's answer, followed at once by
  one more bot message with the low-confidence warning exactly when the answer has
  \<open>requires_attention\<close> set: three new entries in that case, two otherwise. The
  warning is the text of the source, written out here: the warning sign U+26A0 with the
  variation selector U+FE0F, then the ASCII sentence, each character as its code unit.
\<close>

theorem handleSendMessage_growth:
  assumes nonblank: "\<not> (\<forall>c \<in> set (input s). js_whitespace c)"
    and online: "isOnline s"
    and sent: "sendChatMessage fetch (input s) userId (map history_of (messages s)) = Inr resp"
  shows "messages (state (handleSendMessage userId clk fetch s)) =
           messages s
           @ [\<lparr>msg_id = toString (now_user clk), msg_text = input s, msg_sender = User,
                msg_timestamp = date_user clk, msg_confidence = None, msg_sources = None\<rparr>,
               \<lparr>msg_id = toString (now_reply clk + 1), msg_text = response resp,
                msg_sender = Bot, msg_timestamp = date_reply clk,
                msg_confidence = Some (confidence_score resp),
                msg_sources = Some (sources resp)\<rparr>]
           @ (if requires_attention resp
              then [\<lparr>msg_id = toString (now_warning clk + 2),
                     msg_text = [0x26A0, 0xFE0F] @ map (\<lambda>c. word_of_nat (of_char c))
                       '' This answer has low confidence. If it doesn't help, please contact our support team.'',
                     msg_sender = Bot, msg_timestamp = date_warning clk,
                     msg_confidence = None, msg_sources = None\<rparr>]
              else [])
         \<and> length (messages (state (handleSendMessage userId clk fetch s))) =
             length (messages s) + (if requires_attention resp then 3 else 2)"
proof -
  from nonblank have "js_trim (input s) \<noteq> []"
    by (simp add: js_trim_empty_iff)
  with online sent show ?thesis
    by (simp add: handleSendMessage_def Let_def warningText_def utf16_def)
qed

theorem handleSendMessage_growth_witness:
  "length (messages (state (handleSendMessage (utf16 ''u1'') noon (backend_up unsure_reply)
       (idle_state [0x68, 0x69] True)))) = 3
   \<and> map msg_text (messages (state (handleSendMessage (utf16 ''u1'') noon
       (backend_up unsure_reply) (idle_state [0x68, 0x69] True))))
     = [[0x68, 0x69],
        map (\<lambda>c. word_of_nat (of_char c)) ''Possibly two million.'',
        [0x26A0, 0xFE0F, 0x20, 0x54, 0x68, 0x69, 0x73, 0x20, 0x61, 0x6E, 0x73, 0x77, 0x65,
         0x72, 0x20, 0x68, 0x61, 0x73, 0x20, 0x6C, 0x6F, 0x77, 0x20, 0x63, 0x6F, 0x6E,
         0x66, 0x69, 0x64, 0x65, 0x6E, 0x63, 0x65, 0x2E, 0x20, 0x49, 0x66, 0x20, 0x69,
         0x74, 0x20, 0x64, 0x6F, 0x65, 0x73, 0x6E, 0x27, 0x74, 0x20, 0x68, 0x65, 0x6C,
         0x70, 0x2C, 0x20, 0x70, 0x6C, 0x65, 0x61, 0x73, 0x65, 0x20, 0x63, 0x6F, 0x6E,
         0x74, 0x61, 0x63, 0x74, 0x20, 0x6F, 0x75, 0x72, 0x20, 0x73, 0x75, 0x70, 0x70,
         0x6F, 0x72, 0x74, 0x20, 0x74, 0x65, 0x61, 0x6D, 0x2E]]
   \<and> length (messages (state (handleSendMessage (utf16 ''u1'') noon
       (backend_up (unsure_reply\<lparr>requires_attention := False\<rparr>))
       (idle_state [0x68, 0x69] True)))) = 2"
proof -
  have nonblank: "\<not> (\<forall>c \<in> set (input (idle_state [0x68, 0x69] True)). js_whitespace c)"
    by (simp add: idle_state_def js_whitespace_def)
  have online: "isOnline (idle_state [0x68, 0x69] True)"
    by (simp add: idle_state_def)
  have sent: "sendChatMessage (backend_up r) (input (idle_state [0x68, 0x69] True))
      (utf16 ''u1'') (map history_of (messages (idle_state [0x68, 0x69] True))) = Inr r" for r
    by (simp add: sendChatMessage_def backend_up_def)
  show ?thesis
    using handleSendMessage_growth [OF nonblank online sent, of noon unsure_reply]
      handleSendMessage_growth [OF nonblank online sent, of noon
        "unsure_reply\<lparr>requires_attention := False\<rparr>"]
    by (simp add: idle_state_def unsure_reply_def utf16_def)
qed

section \<open>The health check\<close>

lemma checkHealth_from_3:
  "checkHealth_from fetch 3 =
     (case health_attempt (fetch 3) of
        Inr h \<Rightarrow> (Returned h, attempt_events 3 (fetch 3))
      | Inl e \<Rightarrow> (Thrown e, attempt_events 3 (fetch 3) @ [Warn 3 e, LogAllRetriesFailed]))"
  by (subst checkHealth_from.simps) (simp add: maxRetries_def split: sum.splits)

lemma checkHealth_from_retry:
  "attempt < maxRetries \<Longrightarrow>
   checkHealth_from fetch attempt =
     (case health_attempt (fetch attempt) of
        Inr h \<Rightarrow> (Returned h, attempt_events attempt (fetch attempt))
      | Inl e \<Rightarrow>
          (fst (checkHealth_from fetch (attempt + 1)),
           attempt_events attempt (fetch attempt) @ [Warn attempt e, Wait 15000]
             @ snd (checkHealth_from fetch (attempt + 1))))"
  by (subst checkHealth_from.simps)
     (simp add: retryDelayMs_def case_prod_beta split: sum.splits)

lemma checkHealth_from_2:
  "checkHealth_from fetch 2 =
     (case health_attempt (fetch 2) of
        Inr h \<Rightarrow> (Returned h, attempt_events 2 (fetch 2))
      | Inl e \<Rightarrow>
          (fst (checkHealth_from fetch 3),
           attempt_events 2 (fetch 2) @ [Warn 2 e, Wait 15000] @ snd (checkHealth_from fetch 3)))"
  using checkHealth_from_retry [of 2 fetch] by (simp add: maxRetries_def split: sum.splits)

lemma checkHealth_unfold:
  "checkHealth fetch =
     (case health_attempt (fetch 1) of
        Inr h \<Rightarrow> (Returned h, attempt_events 1 (fetch 1))
      | Inl e \<Rightarrow>
          (fst (checkHealth_from fetch 2),
           attempt_events 1 (fetch 1) @ [Warn 1 e, Wait 15000] @ snd (checkHealth_from fetch 2)))"
  using checkHealth_from_retry [of 1 fetch]
  by (simp add: maxRetries_def checkHealth_def numeral_2_eq_2 split: sum.splits)

lemma filter_fetch_attempt_events [simp]:
  "filter is_fetch (attempt_events n b) = [FetchHealth n]"
  by (simp add: attempt_events_def)

text \<open>
  Claim C10. \<open>checkHealth\<close> requests \<open>/health\<close> at most three times. An attempt that
  has not settled after 20000 ms is aborted and counts as failed; after a failed first or
  second attempt the helper waits 15000 ms and tries again. It returns what the first
  successful attempt parsed, and throws (the third attempt's error) only when all three
  attempts have failed. The TypeScript helper throws as soon as its single attempt fails.
\<close>

theorem checkHealth_retries:
  "checkHealth fetch =
     (case health_attempt (fetch 1) of
        Inr h \<Rightarrow> (Returned h, attempt_events 1 (fetch 1))
      | Inl e1 \<Rightarrow>
          (case health_attempt (fetch 2) of
             Inr h \<Rightarrow>
               (Returned h,
                attempt_events 1 (fetch 1) @ [Warn 1 e1, Wait 15000]
                  @ attempt_events 2 (fetch 2))
           | Inl e2 \<Rightarrow>
               (case health_attempt (fetch 3) of
                  Inr h \<Rightarrow>
                    (Returned h,
                     attempt_events 1 (fetch 1) @ [Warn 1 e1, Wait 15000]
                       @ attempt_events 2 (fetch 2) @ [Warn 2 e2, Wait 15000]
                       @ attempt_events 3 (fetch 3))
                | Inl e3 \<Rightarrow>
                    (Thrown e3,
                     attempt_events 1 (fetch 1) @ [Warn 1 e1, Wait 15000]
                       @ attempt_events 2 (fetch 2) @ [Warn 2 e2, Wait 15000]
                       @ attempt_events 3 (fetch 3) @ [Warn 3 e3, LogAllRetriesFailed]))))
   \<and> length (filter is_fetch (snd (checkHealth fetch))) \<le> 3
   \<and> (20000 \<le> latency b \<longrightarrow>
        health_attempt b = Inl AbortError \<and> attempt_events n b = [FetchHealth n, AbortFetch n])
   \<and> (latency b < 20000 \<longrightarrow>
        health_attempt b = health_attempt_ts b \<and> attempt_events n b = [FetchHealth n])
   \<and> (\<forall>e. health_attempt_ts (fetch 1) = Inl e \<longrightarrow>
        checkHealth_ts fetch = (Thrown e, [FetchHealth 1, LogHealthCheckFailed e]))"
proof (intro conjI)
  show "checkHealth fetch =
     (case health_attempt (fetch 1) of
        Inr h \<Rightarrow> (Returned h, attempt_events 1 (fetch 1))
      | Inl e1 \<Rightarrow>
          (case health_attempt (fetch 2) of
             Inr h \<Rightarrow>
               (Returned h,
                attempt_events 1 (fetch 1) @ [Warn 1 e1, Wait 15000]
                  @ attempt_events 2 (fetch 2))
           | Inl e2 \<Rightarrow>
               (case health_attempt (fetch 3) of
                  Inr h \<Rightarrow>
                    (Returned h,
                     attempt_events 1 (fetch 1) @ [Warn 1 e1, Wait 15000]
                       @ attempt_events 2 (fetch 2) @ [Warn 2 e2, Wait 15000]
                       @ attempt_events 3 (fetch 3))
                | Inl e3 \<Rightarrow>
                    (Thrown e3,
                     attempt_events 1 (fetch 1) @ [Warn 1 e1, Wait 15000]
                       @ attempt_events 2 (fetch 2) @ [Warn 2 e2, Wait 15000]
                       @ attempt_events 3 (fetch 3) @ [Warn 3 e3, LogAllRetriesFailed]))))"
    by (simp add: checkHealth_unfold checkHealth_from_2 checkHealth_from_3 split: sum.splits)
  show "length (filter is_fetch (snd (checkHealth fetch))) \<le> 3"
    by (simp add: checkHealth_unfold checkHealth_from_2 checkHealth_from_3 split: sum.splits)
  show "20000 \<le> latency b \<longrightarrow>
        health_attempt b = Inl AbortError \<and> attempt_events n b = [FetchHealth n, AbortFetch n]"
    by (simp add: health_attempt_def attempt_events_def attemptTimeoutMs_def)
  show "latency b < 20000 \<longrightarrow>
        health_attempt b = health_attempt_ts b \<and> attempt_events n b = [FetchHealth n]"
    by (simp add: health_attempt_def health_attempt_ts_def attempt_events_def attemptTimeoutMs_def)
  show "\<forall>e. health_attempt_ts (fetch 1) = Inl e \<longrightarrow>
        checkHealth_ts fetch = (Thrown e, [FetchHealth 1, LogHealthCheckFailed e])"
    by (simp add: checkHealth_ts_def)
qed

theorem checkHealth_retries_witness:
  "checkHealth waking_server =
     (Returned healthy,
      [FetchHealth 1, Warn 1 NetworkError, Wait 15000,
       FetchHealth 2, AbortFetch 2, Warn 2 AbortError, Wait 15000,
       FetchHealth 3])
   \<and> checkHealth_ts waking_server =
     (Thrown NetworkError, [FetchHealth 1, LogHealthCheckFailed NetworkError])"
  using checkHealth_retries [of waking_server "waking_server 2" 2]
  by (simp add: waking_server_def health_attempt_def health_attempt_ts_def
      attempt_events_def attemptTimeoutMs_def)

section \<open>The documents table\<close>

lemma has_dimension_insert:
  assumes "has_dimension D t" and "sql_insert now v t = Inr t'"
    and "map_option length (new_embedding v) = Some D"
  shows "has_dimension D t'"
  using assms
  by (auto simp: has_dimension_def sql_insert_def split: option.splits if_splits sum.splits)

lemma has_dimension_update:
  assumes "has_dimension D t" and "map_option length e = Some D"
  shows "has_dimension D (sql_update_embedding i e t)"
  using assms
  by (auto simp: has_dimension_def sql_update_embedding_def list_all_iff)

lemma has_dimension_reembed:
  assumes "\<forall>txt. length (embedder txt) = D"
  shows "has_dimension D (reembed embedder t)"
  using assms
  by (simp add: has_dimension_def reembed_def list_all_iff)

text \<open>
  Claim C6, as amended. The table declares \<open>embedding\<close> as a nullable \<open>FLOAT8[]\<close>
  without a length, so it keeps no common length by itself. What the operations keep is
  this: when every stored row has an embedding of length \<open>D\<close>, so it is after an insert
  or an update of one row whose embedding has length \<open>D\<close>, and after a promote that
  embeds with an embedder of dimension \<open>D\<close>; and after re-embedding with an embedder of
  dimension \<open>D'\<close> every stored row has an embedding of length \<open>D'\<close>.
\<close>

theorem documents_dimension_preserved:
  assumes "has_dimension D t"
  shows "(sql_insert now v t = Inr t' \<and> map_option length (new_embedding v) = Some D
            \<longrightarrow> has_dimension D t')
         \<and> (map_option length e = Some D \<longrightarrow> has_dimension D (sql_update_embedding i e t))
         \<and> ((\<forall>txt. length (embedder txt) = D) \<and> promote embedder now' src ty q a t = Inr t''
            \<longrightarrow> has_dimension D t'')
         \<and> ((\<forall>txt. length (embedder' txt) = D') \<longrightarrow> has_dimension D' (reembed embedder' t))"
proof (intro conjI impI)
  assume "sql_insert now v t = Inr t' \<and> map_option length (new_embedding v) = Some D"
  with assms show "has_dimension D t'"
    by (blast intro: has_dimension_insert)
next
  assume "map_option length e = Some D"
  with assms show "has_dimension D (sql_update_embedding i e t)"
    by (rule has_dimension_update)
next
  assume "(\<forall>txt. length (embedder txt) = D) \<and> promote embedder now' src ty q a t = Inr t''"
  then show "has_dimension D t''"
    unfolding promote_def using assms by (auto intro: has_dimension_insert)
next
  assume "\<forall>txt. length (embedder' txt) = D'"
  then show "has_dimension D' (reembed embedder' t)"
    by (rule has_dimension_reembed)
qed

theorem documents_dimension_preserved_witness:
  "has_dimension 3 one_document
   \<and> (case sql_insert 20 (document_of ''second'' (Some [4, 5, 6])) one_document of
        Inl err \<Rightarrow> False
      | Inr t \<Rightarrow> embedding_lengths t = [Some 3, Some 3] \<and> has_dimension 3 t)
   \<and> has_dimension 3 (sql_update_embedding 1 (Some [7, 8, 9]) one_document)
   \<and> (case promote length3 40 (Some ''admin'') (Some ''faq'') ''What is the minimum?''
              ''Two million.'' one_document of
        Inl err \<Rightarrow> False
      | Inr t \<Rightarrow> has_dimension 3 t)
   \<and> has_dimension 3 (reembed length3 one_document)"
proof -
  have inv: "has_dimension 3 one_document"
    by (simp add: has_dimension_def one_document_def)
  have "\<exists>t. sql_insert 20 (document_of ''second'' (Some [4, 5, 6])) one_document = Inr t
           \<and> embedding_lengths t = [Some 3, Some 3]"
    by (simp add: sql_insert_def document_of_def varchar_def one_document_def
        embedding_lengths_def)
  then obtain t1 where
    ins: "sql_insert 20 (document_of ''second'' (Some [4, 5, 6])) one_document = Inr t1"
    and lens: "embedding_lengths t1 = [Some 3, Some 3]"
    by blast
  have "\<exists>t. promote length3 40 (Some ''admin'') (Some ''faq'') ''What is the minimum?''
              ''Two million.'' one_document = Inr t"
    by (simp add: promote_def sql_insert_def varchar_def one_document_def)
  then obtain t2 where
    prm: "promote length3 40 (Some ''admin'') (Some ''faq'') ''What is the minimum?''
              ''Two million.'' one_document = Inr t2"
    by blast
  have emb: "\<forall>txt. length (length3 txt) = 3"
    by (simp add: length3_def)
  have new: "map_option length (new_embedding (document_of ''second'' (Some [4, 5, 6]))) = Some 3"
    by (simp add: document_of_def)
  note kept = documents_dimension_preserved [OF inv, where now = 20
        and v = "document_of ''second'' (Some [4, 5, 6])" and t' = t1
        and e = "Some [7, 8, 9]" and i = 1
        and embedder = length3 and now' = 40
        and src = "Some ''admin''" and ty = "Some ''faq''"
        and q = "''What is the minimum?''" and a = "''Two million.''"
        and t'' = t2 and embedder' = length3 and D' = 3]
  from kept ins new have a: "has_dimension 3 t1"
    by simp
  from kept have b: "has_dimension 3 (sql_update_embedding 1 (Some [7, 8, 9]) one_document)"
    by simp
  have c: "has_dimension 3 t2"
    using prm emb kept by simp
  have d: "has_dimension 3 (reembed length3 one_document)"
    using emb kept by simp
  show ?thesis
    using inv ins lens prm a b c d by simp
qed

text \<open>
  The claim as stated fails on the table: it takes a second row whose embedding has
  another length, and a third with no embedding at all.
\<close>

theorem documents_dimension_counterexample:
  "has_dimension 3 one_document
   \<and> (case sql_insert 20 (document_of ''second'' (Some [1])) one_document of
        Inl err \<Rightarrow> False
      | Inr t \<Rightarrow> embedding_lengths t = [Some 3, Some 1] \<and> \<not> has_dimension 3 t
          \<and> (case sql_insert 30 (document_of ''third'' None) t of
                Inl err \<Rightarrow> False
              | Inr t' \<Rightarrow> embedding_lengths t' = [Some 3, Some 1, None]))"
  by (simp add: has_dimension_def one_document_def sql_insert_def document_of_def
      varchar_def embedding_lengths_def)

section \<open>The vector store\<close>

lemma find_same_pair_append:
  "find (same_pair c) (xs @ [c\<lparr>chunk_id := n\<rparr>]) =
     (case find (same_pair c) xs of Some d \<Rightarrow> Some d | None \<Rightarrow> Some (c\<lparr>chunk_id := n\<rparr>))"
  by (induction xs) (simp_all add: same_pair_def)

lemma insert_chunk_stored:
  assumes "find (same_pair c) (chunks s) = Some d"
  shows "insert_chunk True c s = (chunk_id d, s)"
  using assms by (simp add: insert_chunk_def)

lemma insert_chunk_fresh:
  assumes "find (same_pair c) (chunks s) = None"
  shows "insert_chunk True c s =
           (next_id s, \<lparr>chunks = chunks s @ [c\<lparr>chunk_id := next_id s\<rparr>], next_id = next_id s + 1\<rparr>)"
  using assms by (simp add: insert_chunk_def)

lemma insert_chunk_twice:
  "insert_chunk True c (snd (insert_chunk True c s)) = insert_chunk True c s"
proof (cases "find (same_pair c) (chunks s)")
  case None
  then show ?thesis
    by (simp add: insert_chunk_fresh) (simp add: insert_chunk_def find_same_pair_append)
next
  case (Some d)
  then show ?thesis
    by (simp add: insert_chunk_stored)
qed

lemma filter_same_pair_fresh:
  assumes "find (same_pair c) xs = None"
  shows "filter (same_pair c) (xs @ [c\<lparr>chunk_id := n\<rparr>]) = [c\<lparr>chunk_id := n\<rparr>]"
proof -
  from assms have "filter (same_pair c) xs = []"
    by (simp add: find_None_iff filter_empty_conv)
  then show ?thesis by (simp add: same_pair_def)
qed

lemma wf_store_empty: "wf_store empty_store"
  by (simp add: wf_store_def empty_store_def)

lemma wf_store_insert:
  assumes "wf_store s"
  shows "wf_store (snd (insert_chunk dedup c s))"
proof (cases "if dedup then find (same_pair c) (chunks s) else None")
  case None
  then have "snd (insert_chunk dedup c s) =
      \<lparr>chunks = chunks s @ [c\<lparr>chunk_id := next_id s\<rparr>], next_id = next_id s + 1\<rparr>"
    by (simp add: insert_chunk_def)
  moreover have "\<forall>d \<in> set (chunks s). chunk_id d < next_id s"
    using assms by (simp add: wf_store_def list_all_iff)
  ultimately show ?thesis
    using assms by (auto simp: wf_store_def sorted_wrt_append list_all_iff)
next
  case (Some d)
  then have "snd (insert_chunk dedup c s) = s"
    by (simp add: insert_chunk_def)
  with assms show ?thesis by simp
qed

lemma wf_store_delete:
  assumes "wf_store s"
  shows "wf_store (delete i s)"
  using assms
  by (auto simp: wf_store_def delete_def sorted_wrt_map sorted_wrt_filter list_all_iff)

lemma library_eval:
  "library = \<lparr>chunks = [policy_chunk\<lparr>chunk_id := 0\<rparr>, fees_chunk\<lparr>chunk_id := 1\<rparr>,
                         terms_chunk\<lparr>chunk_id := 2\<rparr>], next_id = 3\<rparr>"
  by (simp add: library_def insert_chunk_def empty_store_def same_pair_def
      policy_chunk_def fees_chunk_def terms_chunk_def)

lemma score_examples:
  "score [1, 0] [1, 0] = 1" "score [1, 0] [0, 1] = 1 / 2"
  by (simp_all add: score_def cos_sim_def vec_norm_def dot_def)

lemma library_query:
  "map (\<lambda>e. chunk_id (entry_chunk e)) (query [1, 0] 2 None library) = [0, 2]
   \<and> map entry_score (query [1, 0] 2 None library) = [1, 1]"
  by (simp add: library_eval query_def matches_def scored_def score_examples
      policy_chunk_def fees_chunk_def terms_chunk_def)

text \<open>
  Claim C5. With the dedup policy on, an insert whose \<open>(source, content)\<close> pair is
  stored already leaves the store as it is and returns the identity of a stored chunk
  with that pair. So a second, identical insert changes nothing and returns what the
  first returned; and after two inserts of a pair that was not stored before the first,
  \<open>count\<close> has grown by exactly 1 and exactly one stored chunk has the pair.
\<close>

theorem insert_chunk_dedup:
  "(\<forall>d. d \<in> set (chunks s) \<and> same_pair c d \<longrightarrow>
       snd (insert_chunk True c s) = s
       \<and> (\<exists>d' \<in> set (chunks s). same_pair c d' \<and> fst (insert_chunk True c s) = chunk_id d'))
   \<and> insert_chunk True c (snd (insert_chunk True c s)) = insert_chunk True c s
   \<and> ((\<forall>d \<in> set (chunks s). \<not> same_pair c d) \<longrightarrow>
        count (snd (insert_chunk True c (snd (insert_chunk True c s)))) = count s + 1
        \<and> length (filter (same_pair c)
             (chunks (snd (insert_chunk True c (snd (insert_chunk True c s)))))) = 1)"
proof (intro conjI allI impI)
  fix d assume d: "d \<in> set (chunks s) \<and> same_pair c d"
  then obtain d' where found: "find (same_pair c) (chunks s) = Some d'"
    by (cases "find (same_pair c) (chunks s)") (auto simp: find_None_iff)
  then show "snd (insert_chunk True c s) = s"
    by (simp add: insert_chunk_stored)
  from found have "d' \<in> set (chunks s)" "same_pair c d'"
    by (auto simp: find_Some_iff)
  with found show "\<exists>d' \<in> set (chunks s). same_pair c d' \<and> fst (insert_chunk True c s) = chunk_id d'"
    by (auto simp: insert_chunk_stored)
next
  show "insert_chunk True c (snd (insert_chunk True c s)) = insert_chunk True c s"
    by (rule insert_chunk_twice)
next
  assume "\<forall>d \<in> set (chunks s). \<not> same_pair c d"
  then have fresh: "find (same_pair c) (chunks s) = None"
    by (simp add: find_None_iff)
  show "count (snd (insert_chunk True c (snd (insert_chunk True c s)))) = count s + 1"
    by (simp add: insert_chunk_twice) (simp add: insert_chunk_fresh [OF fresh] count_def)
  have "chunks (snd (insert_chunk True c s)) = chunks s @ [c\<lparr>chunk_id := next_id s\<rparr>]"
    by (simp add: insert_chunk_fresh [OF fresh])
  then show "length (filter (same_pair c)
             (chunks (snd (insert_chunk True c (snd (insert_chunk True c s)))))) = 1"
    by (simp only: insert_chunk_twice filter_same_pair_fresh [OF fresh]) simp
qed


theorem insert_chunk_dedup_witness:
  "count (snd (insert_chunk True policy_chunk (snd (insert_chunk True policy_chunk empty_store))))
     = count empty_store + 1
   \<and> insert_chunk True fees_chunk library = (1, library)"
proof -
  have fresh: "\<forall>d \<in> set (chunks empty_store). \<not> same_pair policy_chunk d"
    by (simp add: empty_store_def)
  have stored: "fees_chunk\<lparr>chunk_id := 1\<rparr> \<in> set (chunks library)
      \<and> same_pair fees_chunk (fees_chunk\<lparr>chunk_id := 1\<rparr>)"
    by (simp add: library_eval same_pair_def)
  have only: "d \<in> set (chunks library) \<and> same_pair fees_chunk d \<longrightarrow> chunk_id d = 1" for d
    by (auto simp: library_eval same_pair_def policy_chunk_def fees_chunk_def terms_chunk_def)
  from insert_chunk_dedup [of library fees_chunk] stored
  have "snd (insert_chunk True fees_chunk library) = library"
    and "\<exists>d' \<in> set (chunks library). same_pair fees_chunk d'
           \<and> fst (insert_chunk True fees_chunk library) = chunk_id d'"
    by blast+
  with only have "insert_chunk True fees_chunk library = (1, library)"
    by (metis prod.collapse)
  moreover from insert_chunk_dedup [of empty_store policy_chunk] fresh
  have "count (snd (insert_chunk True policy_chunk
      (snd (insert_chunk True policy_chunk empty_store)))) = count empty_store + 1"
    by blast
  ultimately show ?thesis
    by blast
qed

lemma ranks_before_insort:
  assumes "sorted_wrt ranks_before ys"
    and "\<forall>y \<in> set ys. chunk_id (entry_chunk x) < chunk_id (entry_chunk y)"
  shows "sorted_wrt ranks_before (insort_key (\<lambda>e. - entry_score e) x ys)"
  using assms
proof (induction ys)
  case Nil
  then show ?case by simp
next
  case (Cons y ys)
  show ?case
  proof (cases "entry_score y \<le> entry_score x")
    case True
    have "ranks_before x z" if "z \<in> set (y # ys)" for z
    proof -
      have "entry_score z \<le> entry_score y"
        using that Cons.prems(1) by (auto simp: ranks_before_def)
      with True have "entry_score z \<le> entry_score x" by simp
      moreover have "chunk_id (entry_chunk x) < chunk_id (entry_chunk z)"
        using that Cons.prems(2) by auto
      ultimately show ?thesis by (auto simp: ranks_before_def)
    qed
    with True Cons.prems(1) show ?thesis by simp
  next
    case False
    then have "ranks_before y x" by (simp add: ranks_before_def)
    moreover have "sorted_wrt ranks_before (insort_key (\<lambda>e. - entry_score e) x ys)"
      using Cons by simp
    ultimately show ?thesis
      using False Cons.prems(1) by (auto simp: set_insort_key)
  qed
qed

lemma ranks_before_sort:
  assumes "sorted_wrt (<) (map (\<lambda>e. chunk_id (entry_chunk e)) xs)"
  shows "sorted_wrt ranks_before (sort_key (\<lambda>e. - entry_score e) xs)"
  using assms
proof (induction xs)
  case Nil
  then show ?case by simp
next
  case (Cons x xs)
  then have "sorted_wrt ranks_before (sort_key (\<lambda>e. - entry_score e) xs)"
    and "\<forall>y \<in> set xs. chunk_id (entry_chunk x) < chunk_id (entry_chunk y)"
    by auto
  then show ?case
    by (simp add: ranks_before_insort)
qed

lemma query_sorted:
  assumes "wf_store s"
  shows "sorted_wrt ranks_before (query v topK flt s)"
proof -
  have "sorted_wrt (<) (map chunk_id (filter (matches flt) (chunks s)))"
    using assms by (simp add: wf_store_def sorted_wrt_map sorted_wrt_filter)
  then have "sorted_wrt (<) (map (\<lambda>e. chunk_id (entry_chunk e))
      (map (scored v) (filter (matches flt) (chunks s))))"
    by (simp add: scored_def comp_def)
  then show ?thesis
    unfolding query_def by (intro sorted_wrt_take ranks_before_sort)
qed

text \<open>
  Claim C4. On a store whose identities grow in insertion order (as \<open>insert\<close> and
  \<open>delete\<close> keep them), \<open>query\<close> returns at most \<open>topK\<close> entries; an entry never
  has a higher score than one before it; and of two entries with equal scores the one
  inserted earlier comes first.
\<close>

theorem query_ranked:
  assumes "wf_store s"
  shows "length (query v topK flt s) \<le> topK
         \<and> (\<forall>i j. i < j \<and> j < length (query v topK flt s) \<longrightarrow>
              entry_score (query v topK flt s ! j) \<le> entry_score (query v topK flt s ! i)
              \<and> (entry_score (query v topK flt s ! j) = entry_score (query v topK flt s ! i) \<longrightarrow>
                   chunk_id (entry_chunk (query v topK flt s ! i))
                     < chunk_id (entry_chunk (query v topK flt s ! j))))"
proof (intro conjI allI impI)
  show "length (query v topK flt s) \<le> topK"
    by (simp add: query_def)
next
  fix i j assume "i < j \<and> j < length (query v topK flt s)"
  then have r: "ranks_before (query v topK flt s ! i) (query v topK flt s ! j)"
    using query_sorted [OF assms, of v topK flt] by (simp add: sorted_wrt_iff_nth_less)
  then show "entry_score (query v topK flt s ! j) \<le> entry_score (query v topK flt s ! i)"
    by (auto simp: ranks_before_def)
  assume "entry_score (query v topK flt s ! j) = entry_score (query v topK flt s ! i)"
  with r show "chunk_id (entry_chunk (query v topK flt s ! i))
                     < chunk_id (entry_chunk (query v topK flt s ! j))"
    by (auto simp: ranks_before_def)
qed

theorem query_ranked_witness:
  "wf_store library
   \<and> map (\<lambda>e. chunk_id (entry_chunk e)) (query [1, 0] 2 None library) = [0, 2]
   \<and> map entry_score (query [1, 0] 2 None library) = [1, 1]
   \<and> length (query [1, 0] 2 None library) \<le> 2"
proof -
  have wf: "wf_store library"
    unfolding library_def by (intro wf_store_insert wf_store_empty)
  show ?thesis
    using wf query_ranked [OF wf, of "[1, 0]" 2 None] library_query by simp
qed

section \<open>The confidence gate\<close>

text \<open>
  Claim C1. With \<open>fallbackThreshold = 0.3\<close> and \<open>answerThreshold = 0.6\<close>, whatever the
  rest of the retrieval result is: a top score of 0.25 is refused; a top score of 0.45 is
  answered with \<open>requiresAttention\<close> set and exactly one new unanswered query on
  record, holding the score; a top score of 0.8 is answered with the flag clear and
  nothing recorded.
\<close>

theorem confidence_gate_thresholds:
  "confidence_gate default_config (\<lparr>entry_chunk = c, entry_score = 25 / 100\<rparr> # rest) = Refuse
   \<and> answer_query default_config generate q
         (\<lparr>entry_chunk = c, entry_score = 25 / 100\<rparr> # rest) uqs
       = (\<lparr>reply_text = refusal_message, requiresAttention = True\<rparr>,
          uqs @ [\<lparr>uq_id = length uqs, userQuery = q, confidenceScore = 25 / 100,
                   adminResponse = None, uq_status = Open\<rparr>])
   \<and> confidence_gate default_config (\<lparr>entry_chunk = c, entry_score = 45 / 100\<rparr> # rest)
       = AnswerWithWarning
   \<and> answer_query default_config generate q
         (\<lparr>entry_chunk = c, entry_score = 45 / 100\<rparr> # rest) uqs
       = (\<lparr>reply_text = generate q (c # map entry_chunk rest), requiresAttention = True\<rparr>,
          uqs @ [\<lparr>uq_id = length uqs, userQuery = q, confidenceScore = 45 / 100,
                   adminResponse = None, uq_status = Open\<rparr>])
   \<and> confidence_gate default_config (\<lparr>entry_chunk = c, entry_score = 80 / 100\<rparr> # rest) = Answer
   \<and> answer_query default_config generate q
         (\<lparr>entry_chunk = c, entry_score = 80 / 100\<rparr> # rest) uqs
       = (\<lparr>reply_text = generate q (c # map entry_chunk rest), requiresAttention = False\<rparr>,
          uqs)"
  by (simp add: answer_query_def confidence_gate_def top_score_def default_config_def
      observed_confidence_def recordUnanswered_def)

lemma confidence_gate_low:
  assumes "fallbackThreshold cfg \<le> answerThreshold cfg"
    and "\<forall>e \<in> set r. entry_score e < fallbackThreshold cfg"
  shows "confidence_gate cfg r = Refuse"
proof (cases r)
  case Nil
  then show ?thesis by (simp add: confidence_gate_def top_score_def)
next
  case (Cons e es)
  with assms have "entry_score e < fallbackThreshold cfg" "entry_score e < answerThreshold cfg"
    by auto
  with Cons show ?thesis by (simp add: confidence_gate_def top_score_def)
qed

text \<open>
  Claim C7. Take thresholds in order and two calls, one on an empty retrieval result
  (an empty store) and one on a result whose scores are all below
  \<open>fallbackThreshold\<close>; the questions, the generators and the records may differ. Both
  replies carry the same text, the fixed refusal message, and are equal as replies.
\<close>

theorem refusal_message_uniform:
  assumes "fallbackThreshold cfg \<le> answerThreshold cfg"
    and "\<forall>e \<in> set r. entry_score e < fallbackThreshold cfg"
  shows "reply_text (fst (answer_query cfg g q [] uqs)) = refusal_message
         \<and> reply_text (fst (answer_query cfg g' q' r uqs')) = refusal_message
         \<and> fst (answer_query cfg g q [] uqs) = fst (answer_query cfg g' q' r uqs')"
proof -
  have "confidence_gate cfg [] = Refuse"
    by (simp add: confidence_gate_def top_score_def)
  moreover have "confidence_gate cfg r = Refuse"
    using assms by (rule confidence_gate_low)
  ultimately show ?thesis
    by (simp add: answer_query_def)
qed

theorem refusal_message_uniform_witness:
  "reply_text (fst (answer_query default_config echo ''What are the fees?'' [] []))
     = refusal_message
   \<and> reply_text (fst (answer_query default_config echo ''Who is the CEO?''
        [\<lparr>entry_chunk = policy_chunk, entry_score = 25 / 100\<rparr>,
         \<lparr>entry_chunk = fees_chunk, entry_score = 1 / 10\<rparr>] []))
     = refusal_message"
proof -
  have ordered: "fallbackThreshold default_config \<le> answerThreshold default_config"
    by (simp add: default_config_def)
  have low: "\<forall>e \<in> set [\<lparr>entry_chunk = policy_chunk, entry_score = 25 / 100\<rparr>,
         \<lparr>entry_chunk = fees_chunk, entry_score = 1 / 10\<rparr>].
       entry_score e < fallbackThreshold default_config"
    by (simp add: default_config_def)
  show ?thesis
    using refusal_message_uniform [OF ordered low] by simp
qed

end
